theory Spec2Isabelle
  imports Main
begin

section \<open>Python values used by the downloader\<close>

text \<open>
  A Python \<open>str\<close> is a sequence of Unicode code points, so it is modelled as a list of
  naturals: the program strips ideographic spaces, compares against ASCII markers and
  builds messages with Japanese text, none of which fits into 8-bit characters.
  \<open>ascii\<close> embeds an ASCII literal.
\<close>

type_synonym pystr = "nat list"

definition ascii :: "string \<Rightarrow> pystr" where
  "ascii s = map of_char s"

text \<open>\<open>str.isspace\<close> per character, as \<open>str.strip()\<close> without argument uses it.\<close>

definition is_space :: "nat \<Rightarrow> bool" where
  "is_space c = (c \<in> set [0x9, 0xA, 0xB, 0xC, 0xD, 0x1C, 0x1D, 0x1E, 0x1F, 0x20, 0x85, 0xA0,
     0x1680, 0x2000, 0x2001, 0x2002, 0x2003, 0x2004, 0x2005, 0x2006, 0x2007, 0x2008, 0x2009,
     0x200A, 0x2028, 0x2029, 0x202F, 0x205F, 0x3000])"

text \<open>The line boundaries of \<open>str.splitlines()\<close>.\<close>

definition is_linebreak :: "nat \<Rightarrow> bool" where
  "is_linebreak c = (c \<in> set [0xA, 0xB, 0xC, 0xD, 0x1C, 0x1D, 0x1E, 0x85, 0x2028, 0x2029])"

definition py_strip :: "pystr \<Rightarrow> pystr" where
  "py_strip s = rev (dropWhile is_space (rev (dropWhile is_space s)))"

text \<open>
  \<open>str.splitlines()\<close>: the text is cut at every line boundary, \<open>\r\n\<close> counting as one,
  the boundaries are dropped, and a boundary at the very end opens no further line.
\<close>

function py_splitlines :: "pystr \<Rightarrow> pystr list" where
  "py_splitlines s =
     (if s = [] then []
      else (case dropWhile (\<lambda>c. \<not> is_linebreak c) s of
              [] \<Rightarrow> [s]
            | c # r \<Rightarrow>
                takeWhile (\<lambda>c. \<not> is_linebreak c) s #
                py_splitlines (if c = 0xD \<and> take 1 r = [0xA] then drop 1 r else r)))"
  by pat_completeness auto
termination
proof (relation "measure length", goal_cases)
  case 1
  show ?case by simp
next
  case (2 s c r)
  have "length (c # r) \<le> length s"
    using length_dropWhile_le [of "\<lambda>c. \<not> is_linebreak c" s] 2(2) by simp
  then show ?case by (auto simp: less_Suc_eq_le intro: le_trans [OF _ Suc_leD])
qed

declare py_splitlines.simps [simp del]

text \<open>
  \<open>s.split(sep, maxsplit)\<close> for a separator of one character: at most \<open>maxsplit\<close> cuts,
  made at the leftmost occurrences.
\<close>

fun py_split :: "nat \<Rightarrow> nat \<Rightarrow> pystr \<Rightarrow> pystr list" where
  "py_split sep 0 s = [s]"
| "py_split sep (Suc k) s =
     (if sep \<in> set s
      then takeWhile (\<lambda>c. c \<noteq> sep) s # py_split sep k (tl (dropWhile (\<lambda>c. c \<noteq> sep) s))
      else [s])"

text \<open>\<open>sub in s\<close> on strings: \<open>sub\<close> occurs as a contiguous piece of \<open>s\<close>.\<close>

fun py_in :: "pystr \<Rightarrow> pystr \<Rightarrow> bool" where
  "py_in sub [] = (sub = [])"
| "py_in sub (c # cs) = (take (length sub) (c # cs) = sub \<or> py_in sub cs)"

text \<open>\<open>str(n)\<close> for a natural number, and for an integer.\<close>

fun str_nat :: "nat \<Rightarrow> pystr" where
  "str_nat n = (if n < 10 then [48 + n] else str_nat (n div 10) @ [48 + n mod 10])"

declare str_nat.simps [simp del]

definition str_int :: "int \<Rightarrow> pystr" where
  "str_int i = (if i < 0 then 45 # str_nat (nat (- i)) else str_nat (nat i))"

text \<open>\<open>sep.join(xs)\<close>.\<close>

fun py_join :: "pystr \<Rightarrow> pystr list \<Rightarrow> pystr" where
  "py_join sep [] = []"
| "py_join sep [x] = x"
| "py_join sep (x # y # ys) = x @ sep @ py_join sep (y # ys)"

text \<open>
  \<open>a or b\<close> where \<open>a\<close> is a string or \<open>None\<close>: both \<open>None\<close> and the empty string are
  false.
\<close>

definition py_or :: "pystr option \<Rightarrow> pystr \<Rightarrow> pystr" where
  "py_or a b = (case a of None \<Rightarrow> b | Some s \<Rightarrow> if s = [] then b else s)"

text \<open>
  An exception of class \<open>Exception\<close>, the class the worker catches, is represented by
  its text \<open>str(e)\<close>, the only thing the program reads from it.
\<close>

datatype exn = PyException pystr

fun str_exn :: "exn \<Rightarrow> pystr" where
  "str_exn (PyException m) = m"

section \<open>The percentage arithmetic of the progress hook\<close>

text \<open>
  The hook computes \<open>int(a / b * 100)\<close> on Python integers \<open>a\<close> and \<open>b\<close>. \<open>a / b\<close> is
  the binary64 number nearest to the exact quotient (ties to even; \<open>OverflowError\<close> when
  it is too large), the product with \<open>100\<close> is rounded the same way (overflowing to
  infinity), and \<open>int\<close> truncates towards zero and raises on an infinity. A finite
  float is kept as mantissa and exponent: \<open>Finite m e\<close> is \<open>m * 2 ^ e\<close>.
\<close>

datatype pyfloat = Finite int int | Infinity

text \<open>\<open>n.bit_length()\<close> for \<open>0 \<le> n\<close>.\<close>

function bit_length :: "int \<Rightarrow> int" where
  "bit_length n = (if n \<le> 0 then 0 else 1 + bit_length (n div 2))"
  by pat_completeness auto
termination
  by (relation "measure nat") auto

declare bit_length.simps [simp del]

text \<open>The integer nearest to \<open>n / d\<close> for \<open>0 \<le> n\<close> and \<open>0 < d\<close>, ties to even.\<close>

definition round_half_even :: "int \<Rightarrow> int \<Rightarrow> int" where
  "round_half_even n d =
     (let q = n div d; r = 2 * (n mod d)
      in if r < d then q else if d < r then q + 1 else if even q then q else q + 1)"

text \<open>
  The binary64 number nearest to \<open>n / d\<close> for \<open>0 < n\<close> and \<open>0 < d\<close>: 53 bits of
  mantissa, the exponent of the last place not below \<open>-1074\<close>, infinity from \<open>2 ^ 1024\<close> on.
\<close>

definition binary64 :: "int \<Rightarrow> int \<Rightarrow> pyfloat" where
  "binary64 n d =
     (let k = bit_length n - bit_length d;
          top = (if (if 0 \<le> k then d * 2 ^ nat k \<le> n else d \<le> n * 2 ^ nat (- k))
                 then k else k - 1);
          e = max (top - 52) (- 1074);
          m = (if 0 \<le> e then round_half_even n (d * 2 ^ nat e)
               else round_half_even (n * 2 ^ nat (- e)) d)
      in if 971 < e \<or> (e = 971 \<and> m = 2 ^ 53) then Infinity else Finite m e)"

definition py_truediv :: "int \<Rightarrow> int \<Rightarrow> exn + pyfloat" where
  "py_truediv a b =
     (if b = 0 then Inl (PyException (ascii ''division by zero''))
      else if a = 0 then Inr (Finite 0 0)
      else (case binary64 \<bar>a\<bar> \<bar>b\<bar> of
              Infinity \<Rightarrow>
                Inl (PyException (ascii ''integer division result too large for a float''))
            | Finite m e \<Rightarrow> Inr (Finite (sgn a * sgn b * m) e)))"

text \<open>\<open>x * 100\<close>; \<open>Infinity\<close> stands for the infinity of either sign.\<close>

definition float_times_100 :: "pyfloat \<Rightarrow> pyfloat" where
  "float_times_100 x =
     (case x of
        Infinity \<Rightarrow> Infinity
      | Finite m e \<Rightarrow>
          if m = 0 then Finite 0 0
          else (case (if 0 \<le> e then binary64 (\<bar>m\<bar> * 100 * 2 ^ nat e) 1
                      else binary64 (\<bar>m\<bar> * 100) (2 ^ nat (- e))) of
                  Infinity \<Rightarrow> Infinity
                | Finite m' e' \<Rightarrow> Finite (sgn m * m') e'))"

definition py_int :: "pyfloat \<Rightarrow> exn + int" where
  "py_int x =
     (case x of
        Infinity \<Rightarrow> Inl (PyException (ascii ''cannot convert float infinity to integer''))
      | Finite m e \<Rightarrow>
          Inr (if 0 \<le> e then m * 2 ^ nat e else sgn m * (\<bar>m\<bar> div 2 ^ nat (- e))))"

text \<open>\<open>int(a / b * 100)\<close>.\<close>

definition percent_of :: "int \<Rightarrow> int \<Rightarrow> exn + int" where
  "percent_of a b =
     (case py_truediv a b of
        Inl err \<Rightarrow> Inl err
      | Inr q \<Rightarrow> py_int (float_times_100 q))"

section \<open>The worker: \<open>DownloadThread\<close>\<close>

text \<open>
  A task is a URL with an output name; the name is \<open>None\<close> when the input line had no
  comma. The thread object keeps the constructor's arguments. \<open>log_file\<close> is the open log
  file, named by its path, or \<open>None\<close> when the thread was built without one.
\<close>

type_synonym task = "pystr \<times> pystr option"

record download_thread =
  tasks :: "task list"
  output_dir :: pystr
  to_mp3 :: bool
  cookies_file :: "pystr option"
  log_file :: "pystr option"

text \<open>
  The dictionary the download library passes to a progress hook. Only three keys are
  read: \<open>status\<close>, which the library always sets, and the two byte counts. A byte
  count may be missing (\<open>None\<close> of the option type); when the key is there its value
  is an integer or Python's \<open>None\<close>, which the library sends for a size it does not know.
\<close>

datatype pyval = PyInt int | PyNone

record hook_dict =
  status :: pystr
  downloaded_bytes :: "pyval option"
  total_bytes :: "pyval option"

text \<open>
  The closure \<open>progress_hook\<close> is known by the variables it captures: the item's output
  name, its index, and the number of tasks.
\<close>

datatype hook = ProgressHook "pystr option" nat nat

text \<open>
  The options dictionary \<open>ydl_opts\<close>, one field per key; \<open>cookiefile\<close> is \<open>None\<close> when the
  key is not set.
\<close>

record ydl_opts =
  format :: pystr
  outtmpl :: pystr
  merge_output_format :: pystr
  noplaylist :: bool
  quiet :: bool
  progress_hooks :: "hook list"
  cookiefile :: "pystr option"

text \<open>The dictionary \<open>extract_info\<close> returns; \<open>title\<close> is \<open>None\<close> when the key is absent.\<close>

record info_dict =
  title :: "pystr option"

text \<open>
  What the transcoder process does: \<open>Popen\<close> raises, or the process starts and its
  standard output yields lines until it ends or until reading raises.
\<close>

datatype popen_outcome = PopenRaises exn | PopenRuns "pystr list" "exn option"

text \<open>
  The world outside the program. The operating system and the two external tools are
  parameters of the model; the natural number is the index of the item being processed,
  so that the world may answer differently from one item to the next.
  \<^item> \<open>os_path_join\<close> is \<open>os.path.join\<close> on two components;
  \<^item> \<open>os_path_exists\<close> is \<open>os.path.exists\<close>;
  \<^item> \<open>os_makedirs\<close> is \<open>os.makedirs(path, exist_ok=True)\<close> as the worker calls it:
    the exception it raises, or \<open>None\<close> when the directory is there afterwards;
  \<^item> \<open>ydl_extract_info\<close> is \<open>YoutubeDL(opts).extract_info(url, download=True)\<close>: the
    dictionaries it hands to the progress hooks, in order, and then the exception it
    raises or the dictionary it returns;
  \<^item> \<open>ffmpeg\<close> is the transcoder started by \<open>subprocess.Popen\<close> on a command line.
  Both tools are taken to come to an end. Writing to the log file and emitting signals
  are taken to succeed.
\<close>

record env =
  os_path_join :: "pystr \<Rightarrow> pystr \<Rightarrow> pystr"
  os_path_exists :: "nat \<Rightarrow> pystr \<Rightarrow> bool"
  os_makedirs :: "pystr \<Rightarrow> exn option"
  ydl_extract_info :: "nat \<Rightarrow> ydl_opts \<Rightarrow> pystr \<Rightarrow> hook_dict list \<times> (exn + info_dict)"
  ffmpeg :: "nat \<Rightarrow> pystr list \<Rightarrow> popen_outcome"

text \<open>
  Everything the program does to the world, in the order it does it. \<open>LogLine f m\<close> is
  the write of the line \<open>[time] m\<close> to the log file \<open>f\<close>, followed by a flush; the time
  stamp in front of the message is read from the clock and is not modelled. \<open>LogRaw f s\<close>
  writes \<open>s\<close> as it is. \<open>Uncaught e\<close> says that the exception \<open>e\<close> leaves \<open>run\<close>: the
  worker ends there and does nothing more.
\<close>

datatype event =
    MakeDirs pystr
  | OpenLog pystr
  | ExtractInfo pystr ydl_opts
  | ProgressUpdate int pystr
  | LogLine pystr pystr
  | LogRaw pystr pystr
  | Popen "pystr list"
  | ProcessWait
  | FinishedSignal "pystr list"
  | Uncaught exn
  | MessageBoxCritical pystr pystr
  | MessageBoxInformation pystr pystr
  | ProgressBarSet int pystr
  | ProgressDialogShow
  | ProgressDialogClose

text \<open>\<open>DownloadThread.log\<close>: nothing happens without a log file.\<close>

definition log :: "download_thread \<Rightarrow> pystr \<Rightarrow> event list" where
  "log self message =
     (case log_file self of None \<Rightarrow> [] | Some f \<Rightarrow> [LogLine f message])"

text \<open>The suffix \<open>(idx/len(self.tasks))\<close> of the progress messages.\<close>

definition counter :: "download_thread \<Rightarrow> nat \<Rightarrow> pystr" where
  "counter self idx =
     ascii '' ('' @ str_nat idx @ ascii ''/'' @ str_nat (length (tasks self)) @ ascii '')''"

text \<open>
  The expression \<open>d.get('downloaded_bytes', 0) / max(d.get('total_bytes', 1), 1) * 100\<close>
  under \<open>int\<close>. \<open>max\<close> is evaluated before the division and raises \<open>TypeError\<close> on
  \<open>None\<close>; so does the division when the number of bytes is \<open>None\<close>.
\<close>

definition hook_percent :: "hook_dict \<Rightarrow> exn + int" where
  "hook_percent d =
     (case (case total_bytes d of None \<Rightarrow> PyInt 1 | Some v \<Rightarrow> v) of
        PyNone \<Rightarrow>
          Inl (PyException
                 ([0x27, 0x3E, 0x27] @ ascii '' not supported between instances of '' @
                  [0x27] @ ascii ''int'' @ [0x27] @ ascii '' and '' @
                  [0x27] @ ascii ''NoneType'' @ [0x27]))
      | PyInt b \<Rightarrow>
          (case (case downloaded_bytes d of None \<Rightarrow> PyInt 0 | Some v \<Rightarrow> v) of
             PyNone \<Rightarrow>
               Inl (PyException
                      (ascii ''unsupported operand type(s) for /: '' @
                       [0x27] @ ascii ''NoneType'' @ [0x27] @ ascii '' and '' @
                       [0x27] @ ascii ''int'' @ [0x27]))
           | PyInt a \<Rightarrow> percent_of a (max b 1)))"

text \<open>
  \<open>progress_hook\<close>, the closure of item \<open>idx\<close> with output name \<open>filename\<close>. It emits one
  progress signal and one log line for a \<open>downloading\<close> or \<open>finished\<close> dictionary and
  nothing for any other; it raises when the percentage cannot be computed.
\<close>

definition progress_hook ::
  "download_thread \<Rightarrow> pystr option \<Rightarrow> nat \<Rightarrow> hook_dict \<Rightarrow> exn + event list" where
  "progress_hook self filename idx d =
     (if status d = ascii ''downloading'' then
        (case hook_percent d of
           Inl err \<Rightarrow> Inl err
         | Inr percent \<Rightarrow>
             (let msg = ascii ''Downloading '' @ py_or filename (ascii ''video'') @
                        counter self idx
              in Inr (ProgressUpdate percent msg # log self msg)))
      else if status d = ascii ''finished'' then
        (let msg = ascii ''Download finished: '' @ py_or filename (ascii ''video'') @
                   counter self idx
         in Inr (ProgressUpdate 100 msg # log self msg))
      else Inr [])"

text \<open>
  The library calls the hook on each dictionary in turn. An exception raised by the hook
  leaves the library through \<open>extract_info\<close>, so the later dictionaries are never seen.
\<close>

fun run_hooks ::
  "download_thread \<Rightarrow> pystr option \<Rightarrow> nat \<Rightarrow> hook_dict list \<Rightarrow> event list \<times> exn option" where
  "run_hooks self filename idx [] = ([], None)"
| "run_hooks self filename idx (d # ds) =
     (case progress_hook self filename idx d of
        Inl err \<Rightarrow> ([], Some err)
      | Inr evs \<Rightarrow>
          (case run_hooks self filename idx ds of (evs', r) \<Rightarrow> (evs @ evs', r)))"

text \<open>The options built for item \<open>idx\<close> with output name \<open>filename\<close>.\<close>

definition make_ydl_opts ::
  "download_thread \<Rightarrow> env \<Rightarrow> nat \<Rightarrow> pystr option \<Rightarrow> ydl_opts" where
  "make_ydl_opts self w idx filename =
     \<lparr> format = ascii ''bestvideo+bestaudio/best'',
       outtmpl =
         (case filename of
            None \<Rightarrow> os_path_join w (output_dir self) (ascii ''%(title)s.%(ext)s'')
          | Some name \<Rightarrow>
              if name = [] then os_path_join w (output_dir self) (ascii ''%(title)s.%(ext)s'')
              else os_path_join w (output_dir self) (name @ ascii ''.%(ext)s'')),
       merge_output_format = ascii ''mp4'',
       noplaylist = True,
       quiet = True,
       progress_hooks = [ProgressHook filename idx (length (tasks self))],
       cookiefile =
         (case cookies_file self of
            None \<Rightarrow> None
          | Some c \<Rightarrow> if c \<noteq> [] \<and> os_path_exists w idx c then Some c else None) \<rparr>"

text \<open>
  The loop over the transcoder's output: one progress signal (at 50) and one log line
  for every line that contains \<open>time=\<close>.
\<close>

fun scan_stdout :: "download_thread \<Rightarrow> pystr \<Rightarrow> nat \<Rightarrow> pystr list \<Rightarrow> event list" where
  "scan_stdout self ttl idx [] = []"
| "scan_stdout self ttl idx (line # lines) =
     (if py_in (ascii ''time='') line
      then (let msg = ascii ''Converting '' @ ttl @ ascii '' to MP3'' @ counter self idx
            in ProgressUpdate 50 msg # log self msg)
      else []) @ scan_stdout self ttl idx lines"

definition ffmpeg_cmd :: "pystr \<Rightarrow> pystr \<Rightarrow> pystr list" where
  "ffmpeg_cmd mp4_file mp3_file =
     [ascii ''ffmpeg'', ascii ''-i'', mp4_file, ascii ''-vn'', ascii ''-ab'', ascii ''192k'',
      ascii ''-ar'', ascii ''44100'', ascii ''-y'', mp3_file]"

text \<open>
  The body of the \<open>try\<close> for one item: the events it causes, and either the exception
  that ends it or the string it appends to \<open>results\<close>.
\<close>

definition try_body ::
  "download_thread \<Rightarrow> env \<Rightarrow> nat \<Rightarrow> task \<Rightarrow> event list \<times> (exn + pystr)" where
  "try_body self w idx t =
     (case t of (url, filename) \<Rightarrow>
        let opts = make_ydl_opts self w idx filename in
        (case ydl_extract_info w idx opts url of (ds, outcome) \<Rightarrow>
           (case run_hooks self filename idx ds of
              (hevs, Some err) \<Rightarrow> (ExtractInfo url opts # hevs, Inl err)
            | (hevs, None) \<Rightarrow>
                (case outcome of
                   Inl err \<Rightarrow> (ExtractInfo url opts # hevs, Inl err)
                 | Inr info \<Rightarrow>
                     let ttl = py_or filename
                                 (case title info of None \<Rightarrow> ascii ''output'' | Some s \<Rightarrow> s);
                         mp4_file = os_path_join w (output_dir self) (ttl @ ascii ''.mp4'')
                     in if to_mp3 self then
                          (let mp3_file = os_path_join w (output_dir self) (ttl @ ascii ''.mp3'');
                               cmd = ffmpeg_cmd mp4_file mp3_file
                           in case ffmpeg w idx cmd of
                                PopenRaises err \<Rightarrow>
                                  (ExtractInfo url opts # hevs @ [Popen cmd], Inl err)
                              | PopenRuns lines (Some err) \<Rightarrow>
                                  (ExtractInfo url opts # hevs @ [Popen cmd] @
                                   scan_stdout self ttl idx lines, Inl err)
                              | PopenRuns lines None \<Rightarrow>
                                  (let msg = ascii ''Conversion finished: '' @ ttl
                                   in (ExtractInfo url opts # hevs @ [Popen cmd] @
                                       scan_stdout self ttl idx lines @ [ProcessWait] @
                                       ProgressUpdate 100 msg # log self msg,
                                       Inr (mp4_file @
                                            (if mp3_file = [] then [] else 0xA # mp3_file)))))
                        else (ExtractInfo url opts # hevs, Inr mp4_file)))))"

text \<open>
  The \<open>except Exception\<close> clause: the exception's text, extended by a hint when it says
  that the content is bound to the YouTube app, goes into the result string and into the
  log.
\<close>

definition app_only_marker :: pystr where
  "app_only_marker = ascii ''The following content is not available on this app''"

definition app_only_hint :: pystr where
  "app_only_hint =
     [0xA, 0xA, 0x3053, 0x306E, 0x52D5, 0x753B, 0x306F] @ ascii ''YouTube'' @
     [0x306E, 0x30A2, 0x30D7, 0x30EA, 0x9650, 0x5B9A, 0x30B3, 0x30F3, 0x30C6, 0x30F3, 0x30C4,
      0x3067, 0x3059, 0x3002, 0xA] @ ascii ''cookies.txt '' @
     [0x3092, 0x4F7F, 0x7528, 0x3057, 0x3066, 0x30ED, 0x30B0, 0x30A4, 0x30F3, 0x72B6, 0x614B,
      0x3092, 0x53CD, 0x6620, 0x3059, 0x308B, 0x3068, 0x30C0, 0x30A6, 0x30F3, 0x30ED, 0x30FC,
      0x30C9, 0x53EF, 0x80FD, 0x306B, 0x306A, 0x308B, 0x5834, 0x5408, 0x304C, 0x3042, 0x308A,
      0x307E, 0x3059, 0x3002]"

definition error_text :: "exn \<Rightarrow> pystr" where
  "error_text e =
     (let err_msg = str_exn e
      in if py_in app_only_marker err_msg then err_msg @ app_only_hint else err_msg)"

definition error_result :: "pystr \<Rightarrow> exn \<Rightarrow> pystr" where
  "error_result url e =
     ascii ''URL: '' @ url @ ascii '' '' @ [0x3067, 0x30A8, 0x30E9, 0x30FC, 0x767A, 0x751F] @
     ascii '': '' @ error_text e"

definition error_log_message :: "pystr \<Rightarrow> exn \<Rightarrow> pystr" where
  "error_log_message url e = ascii ''ERROR: URL '' @ url @ ascii '' - '' @ error_text e"

text \<open>One turn of the loop: the \<open>try\<close> with its handler.\<close>

definition process_item ::
  "download_thread \<Rightarrow> env \<Rightarrow> nat \<Rightarrow> task \<Rightarrow> event list \<times> pystr" where
  "process_item self w idx t =
     (case try_body self w idx t of
        (evs, Inr r) \<Rightarrow> (evs, r)
      | (evs, Inl e) \<Rightarrow> (evs @ log self (error_log_message (fst t) e), error_result (fst t) e))"

text \<open>
  \<open>for idx, (url, filename) in enumerate(self.tasks, 1)\<close>, with \<open>results\<close> as accumulator.
\<close>

fun run_loop ::
  "download_thread \<Rightarrow> env \<Rightarrow> nat \<Rightarrow> task list \<Rightarrow> pystr list \<Rightarrow> event list \<times> pystr list" where
  "run_loop self w idx [] results = ([], results)"
| "run_loop self w idx (t # ts) results =
     (case process_item self w idx t of (evs, r) \<Rightarrow>
        (case run_loop self w (Suc idx) ts (results @ [r]) of
           (evs', results') \<Rightarrow> (evs @ evs', results')))"

text \<open>
  \<open>DownloadThread.run\<close>. The output directory is created before the loop and outside
  its \<open>try\<close>: when that raises, the exception leaves \<open>run\<close>, no item is processed and no
  signal is emitted.
\<close>

definition run :: "download_thread \<Rightarrow> env \<Rightarrow> event list" where
  "run self w =
     (case os_makedirs w (output_dir self) of
        Some err \<Rightarrow> [MakeDirs (output_dir self), Uncaught err]
      | None \<Rightarrow>
          (case run_loop self w 1 (tasks self) [] of
             (evs, results) \<Rightarrow> MakeDirs (output_dir self) # evs @ [FinishedSignal results]))"

section \<open>The window: \<open>YouTubeDownloader\<close>\<close>

text \<open>
  A reading of the clock, and \<open>strftime("%Y%m%d_%H%M%S")\<close> on it: every field in
  decimal, filled with zeros to four digits for the year and to two for the others.
\<close>

record datetime =
  year :: nat
  month :: nat
  day :: nat
  hour :: nat
  minute :: nat
  second :: nat

definition zero_pad :: "nat \<Rightarrow> nat \<Rightarrow> pystr" where
  "zero_pad width n = replicate (width - length (str_nat n)) 48 @ str_nat n"

definition strftime_stamp :: "datetime \<Rightarrow> pystr" where
  "strftime_stamp t =
     zero_pad 4 (year t) @ zero_pad 2 (month t) @ zero_pad 2 (day t) @ ascii ''_'' @
     zero_pad 2 (hour t) @ zero_pad 2 (minute t) @ zero_pad 2 (second t)"

text \<open>
  \<open>create_logger\<close>, given the clock's reading: the directory is created, and the file
  named after the time stamp is opened for writing, which empties it. The open file is
  returned; it is known by its path. The function is called while the window is built,
  and a window is there only when both steps went through, so they are taken to
  succeed.
\<close>

definition create_logger :: "env \<Rightarrow> datetime \<Rightarrow> pystr \<Rightarrow> pystr \<times> event list" where
  "create_logger w now dir =
     (let timestamp = strftime_stamp now;
          log_path = os_path_join w dir (timestamp @ ascii ''.log'')
      in (log_path, [MakeDirs dir, OpenLog log_path]))"

text \<open>
  The window: the widgets the user fills in, and the log file opened when the window was
  built (the attribute \<open>log_file\<close> of the window).
\<close>

record youtube_downloader =
  folder_entry :: pystr
  mp3_checkbox :: bool
  cookies_entry :: pystr
  urls_text :: pystr
  window_log_file :: pystr

text \<open>\<open>YouTubeDownloader.__init__\<close>: the logger is created once, with the window.\<close>

definition init :: "env \<Rightarrow> datetime \<Rightarrow> youtube_downloader \<times> event list" where
  "init w now =
     (case create_logger w now (ascii ''logs'') of
        (f, evs) \<Rightarrow>
          (\<lparr> folder_entry = [], mp3_checkbox = False, cookies_entry = [], urls_text = [],
             window_log_file = f \<rparr>, evs))"

text \<open>
  The loop of \<open>start_download\<close> that turns the lines into tasks; \<open>acc\<close> is the list
  \<open>tasks\<close> built so far. \<open>parts\<close> is never empty, so \<open>parts[0]\<close> is always there.
\<close>

fun build_tasks :: "pystr list \<Rightarrow> task list \<Rightarrow> task list" where
  "build_tasks [] acc = acc"
| "build_tasks (line # lines) acc =
     (if py_strip line = [] then build_tasks lines acc
      else (let parts = py_split 0x2C 1 line;
                url = py_strip (parts ! 0);
                filename = (if 1 < length parts then Some (py_strip (parts ! 1)) else None)
            in build_tasks lines (acc @ [(url, filename)])))"

text \<open>
  \<open>start_download\<close>: without a single line an error box is shown and nothing is started;
  otherwise the thread is built, with the window's log file, and started.
\<close>

definition start_download :: "youtube_downloader \<Rightarrow> event list \<times> download_thread option" where
  "start_download gui =
     (let out_dir = py_or (Some (py_strip (folder_entry gui))) (ascii ''downloads'');
          mp3 = mp3_checkbox gui;
          cookies = (if py_strip (cookies_entry gui) = [] then None
                     else Some (py_strip (cookies_entry gui)));
          lines = py_splitlines (urls_text gui)
      in if lines = []
         then ([MessageBoxCritical [0x30A8, 0x30E9, 0x30FC]
                  (ascii ''URL'' @
                   [0x3092, 0x5165, 0x529B, 0x3057, 0x3066, 0x304F, 0x3060, 0x3055, 0x3044])],
               None)
         else ([ProgressDialogShow],
               Some \<lparr> tasks = build_tasks lines [], output_dir = out_dir, to_mp3 = mp3,
                      cookies_file = cookies, log_file = Some (window_log_file gui) \<rparr>))"

text \<open>The slots \<open>update_progress\<close> and \<open>download_finished\<close>.\<close>

definition update_progress :: "int \<Rightarrow> pystr \<Rightarrow> event list" where
  "update_progress percent message =
     [ProgressBarSet percent (message @ ascii '' - '' @ str_int percent @ ascii ''%'')]"

definition completion_marker :: pystr where
  "completion_marker = [0xA] @ ascii ''=== '' @ [0x5B8C, 0x4E86] @ ascii '' ==='' @ [0xA]"

definition download_finished :: "youtube_downloader \<Rightarrow> pystr list \<Rightarrow> event list" where
  "download_finished gui results =
     [ProgressDialogClose, LogRaw (window_log_file gui) completion_marker,
      MessageBoxInformation [0x5B8C, 0x4E86] (py_join [0xA, 0xA] results)]"

text \<open>
  The progress signal is declared \<open>pyqtSignal(int, str)\<close>: its first argument crosses to
  the slot as a C \<open>int\<close> of 32 bits, so the slot sees the percentage wrapped into that
  range.
\<close>

definition c_int :: "int \<Rightarrow> int" where
  "c_int i = (i + 2 ^ 31) mod 2 ^ 32 - 2 ^ 31"

fun deliver :: "youtube_downloader \<Rightarrow> event \<Rightarrow> event list" where
  "deliver gui (ProgressUpdate percent message) = update_progress (c_int percent) message"
| "deliver gui (FinishedSignal results) = download_finished gui results"
| "deliver gui _ = []"

text \<open>
  A click on the download button: \<open>start_download\<close>, then the worker's run, each signal
  followed by what its slot does. The slots run in the window's thread some time after
  the signal; the model lets each run at once, which keeps the order of the signals and
  puts every slot after its signal. The progress dialog, shown right after the thread
  is started, is put in front.
\<close>

definition click_download :: "youtube_downloader \<Rightarrow> env \<Rightarrow> event list" where
  "click_download gui w =
     (case start_download gui of
        (evs, None) \<Rightarrow> evs
      | (evs, Some thr) \<Rightarrow> evs @ concat (map (\<lambda>ev. ev # deliver gui ev) (run thr w)))"

text \<open>What a sequence of events writes to the file \<open>f\<close>, in order.\<close>

fun writes_to :: "pystr \<Rightarrow> event \<Rightarrow> bool" where
  "writes_to f (LogLine g m) = (g = f)"
| "writes_to f (LogRaw g s) = (g = f)"
| "writes_to f _ = False"

definition log_written :: "pystr \<Rightarrow> event list \<Rightarrow> event list" where
  "log_written f evs = filter (writes_to f) evs"

section \<open>Notions used to state the properties\<close>

text \<open>
  The events and the result string of one turn of the loop; the argument is the pair
  that \<open>enumerate\<close> yields, the index and the task.
\<close>

definition item_events :: "download_thread \<Rightarrow> env \<Rightarrow> nat \<times> task \<Rightarrow> event list" where
  "item_events self w it = fst (process_item self w (fst it) (snd it))"

definition item_result :: "download_thread \<Rightarrow> env \<Rightarrow> nat \<times> task \<Rightarrow> pystr" where
  "item_result self w it = snd (process_item self w (fst it) (snd it))"

fun is_finished :: "event \<Rightarrow> bool" where
  "is_finished (FinishedSignal rs) = True"
| "is_finished _ = False"

fun is_log_write :: "event \<Rightarrow> bool" where
  "is_log_write (LogLine f m) = True"
| "is_log_write (LogRaw f s) = True"
| "is_log_write _ = False"

fun is_popen :: "event \<Rightarrow> bool" where
  "is_popen (Popen cmd) = True"
| "is_popen _ = False"

fun is_progress :: "event \<Rightarrow> bool" where
  "is_progress (ProgressUpdate percent msg) = True"
| "is_progress _ = False"

text \<open>A progress event with a percentage outside 0..100 is out of range.\<close>

fun percent_in_range :: "event \<Rightarrow> bool" where
  "percent_in_range (ProgressUpdate percent msg) = (0 \<le> percent \<and> percent \<le> 100)"
| "percent_in_range _ = True"

text \<open>A report is what the worker sends while an item is under way: progress or log.\<close>

fun is_report :: "event \<Rightarrow> bool" where
  "is_report (ProgressUpdate percent msg) = True"
| "is_report (LogLine f m) = True"
| "is_report _ = False"

text \<open>The calls of the download function in a sequence of events, in order.\<close>

fun extract_calls :: "event list \<Rightarrow> (pystr \<times> ydl_opts) list" where
  "extract_calls [] = []"
| "extract_calls (ExtractInfo url opts # evs) = (url, opts) # extract_calls evs"
| "extract_calls (ev # evs) = extract_calls evs"

text \<open>
  The title of an item whose download returned \<open>info\<close>, the paths made from it, and the
  result string of a successful item: the video path, and on a second line the audio
  path when conversion to MP3 was asked for.
\<close>

definition item_title :: "pystr option \<Rightarrow> info_dict \<Rightarrow> pystr" where
  "item_title filename info =
     py_or filename (case title info of None \<Rightarrow> ascii ''output'' | Some s \<Rightarrow> s)"

definition video_path :: "download_thread \<Rightarrow> env \<Rightarrow> pystr \<Rightarrow> pystr" where
  "video_path self w ttl = os_path_join w (output_dir self) (ttl @ ascii ''.mp4'')"

definition audio_path :: "download_thread \<Rightarrow> env \<Rightarrow> pystr \<Rightarrow> pystr" where
  "audio_path self w ttl = os_path_join w (output_dir self) (ttl @ ascii ''.mp3'')"



text \<open>
  The task list as the specification words it: the lines of the text, without those
  that are empty or hold white space only; each line cut at its first comma, the
  stripped text before it the URL, the stripped text after it the name, and no name for
  a line without comma.
\<close>

definition is_blank :: "pystr \<Rightarrow> bool" where
  "is_blank line = list_all is_space line"

definition spec_task :: "pystr \<Rightarrow> task" where
  "spec_task line =
     (if 0x2C \<in> set line
      then (py_strip (takeWhile (\<lambda>c. c \<noteq> 0x2C) line),
            Some (py_strip (drop (Suc (length (takeWhile (\<lambda>c. c \<noteq> 0x2C) line))) line)))
      else (py_strip line, None))"

definition spec_tasks :: "pystr \<Rightarrow> task list" where
  "spec_tasks text = map spec_task (filter (\<lambda>line. \<not> is_blank line) (py_splitlines text))"

text \<open>The entries of the options that do not depend on the item.\<close>

definition fixed_entries :: "ydl_opts \<Rightarrow> bool" where
  "fixed_entries opts =
     (format opts = ascii ''bestvideo+bestaudio/best'' \<and>
      merge_output_format opts = ascii ''mp4'' \<and> noplaylist opts \<and> quiet opts)"

section \<open>A small world to run the model in\<close>

text \<open>
  \<open>posixpath.join\<close> on two components. In the example world every directory can be
  created, no cookie file exists, the URL \<open>https://a\<close> downloads with two progress calls
  and yields the title \<open>A\<close>, any other URL is refused, and the transcoder prints one
  progress line and one other line. In the second world the output directory cannot be
  created, because a file of that name is in the way.
\<close>

definition posix_join :: "pystr \<Rightarrow> pystr \<Rightarrow> pystr" where
  "posix_join a b =
     (if take 1 b = [0x2F] then b
      else if a = [] \<or> last a = 0x2F then a @ b
      else a @ [0x2F] @ b)"

definition example_env :: env where
  "example_env =
     \<lparr> os_path_join = posix_join,
       os_path_exists = (\<lambda>idx path. False),
       os_makedirs = (\<lambda>path. None),
       ydl_extract_info = (\<lambda>idx opts url.
         if url = ascii ''https://a''
         then ([\<lparr> status = ascii ''downloading'', downloaded_bytes = Some (PyInt 50),
                   total_bytes = Some (PyInt 200) \<rparr>,
                \<lparr> status = ascii ''finished'', downloaded_bytes = Some (PyInt 200),
                   total_bytes = Some (PyInt 200) \<rparr>],
               Inr \<lparr> title = Some (ascii ''A'') \<rparr>)
         else ([], Inl (PyException (ascii ''Unsupported URL'')))),
       ffmpeg = (\<lambda>idx cmd. PopenRuns [ascii ''size=1kB time=00:00:01'', ascii ''done''] None) \<rparr>"

definition blocked_env :: env where
  "blocked_env =
     example_env
       \<lparr> os_makedirs := (\<lambda>path. Some (PyException (ascii ''[Errno 17] File exists''))) \<rparr>"

definition example_thread :: download_thread where
  "example_thread =
     \<lparr> tasks = [(ascii ''https://a'', Some (ascii ''v'')), (ascii ''https://b'', None)],
       output_dir = ascii ''out'', to_mp3 = True, cookies_file = Some (ascii ''c.txt''),
       log_file = Some (ascii ''logs/x.log'') \<rparr>"

definition example_window :: youtube_downloader where
  "example_window =
     \<lparr> folder_entry = ascii ''out'', mp3_checkbox = True, cookies_entry = ascii ''c.txt'',
       urls_text = ascii ''https://a, v'' @ [0xA, 0x3000, 0xA] @ ascii ''https://b'',
       window_log_file = ascii ''logs/x.log'' \<rparr>"

definition example_now :: datetime where
  "example_now = \<lparr> year = 2026, month = 11, day = 3, hour = 9, minute = 5, second = 7 \<rparr>"


section \<open>The worker's run\<close>

subsection \<open>The shape of a run\<close>

lemma run_loop_eq:
  "run_loop self w idx ts acc =
     (concat (map (item_events self w) (List.enumerate idx ts)),
      acc @ map (item_result self w) (List.enumerate idx ts))"
  by (induction ts arbitrary: idx acc)
     (simp_all add: item_events_def item_result_def split: prod.splits)

lemma run_eq:
  "os_makedirs w (output_dir self) = None \<Longrightarrow>
   run self w =
     MakeDirs (output_dir self) #
     concat (map (item_events self w) (List.enumerate 1 (tasks self))) @
     [FinishedSignal (map (item_result self w) (List.enumerate 1 (tasks self)))]"
  by (simp add: run_def run_loop_eq)

lemma run_blocked:
  "os_makedirs w (output_dir self) = Some err \<Longrightarrow>
   run self w = [MakeDirs (output_dir self), Uncaught err]"
  by (simp add: run_def)

lemma log_reports: "list_all is_report (log self m)"
  by (simp add: log_def split: option.splits)

lemma progress_hook_reports:
  "progress_hook self fn idx d = Inr evs \<Longrightarrow> list_all is_report evs"
  using log_reports [of self]
  by (auto simp: progress_hook_def Let_def split: if_splits sum.splits)

lemma run_hooks_reports:
  "run_hooks self fn idx ds = (evs, r) \<Longrightarrow> list_all is_report evs"
proof (induction ds arbitrary: evs r)
  case Nil
  then show ?case by simp
next
  case (Cons d ds)
  then show ?case
    by (auto split: sum.splits prod.splits dest: progress_hook_reports)
qed

lemma scan_stdout_reports: "list_all is_report (scan_stdout self ttl idx ls)"
  using log_reports [of self]
  by (induction ls) (simp_all add: Let_def)

lemma reports_not_finished: "list_all is_report evs \<Longrightarrow> list_all (\<lambda>ev. \<not> is_finished ev) evs"
proof (induction evs)
  case Nil
  show ?case by simp
next
  case (Cons ev evs)
  then show ?case by (cases ev) simp_all
qed

lemma reports_no_calls: "list_all is_report evs \<Longrightarrow> extract_calls evs = []"
proof (induction evs)
  case Nil
  show ?case by simp
next
  case (Cons ev evs)
  then show ?case by (cases ev) simp_all
qed

lemma reports_no_popen: "list_all is_report evs \<Longrightarrow> filter is_popen evs = []"
proof (induction evs)
  case Nil
  show ?case by simp
next
  case (Cons ev evs)
  then show ?case by (cases ev) simp_all
qed

lemma extract_calls_append: "extract_calls (xs @ ys) = extract_calls xs @ extract_calls ys"
  by (induction xs rule: extract_calls.induct) simp_all

text \<open>
  The six ways through the \<open>try\<close>: a hook raises, the download raises, the download
  returns and no conversion is asked for, \<open>Popen\<close> raises, reading the transcoder's
  output raises, or the conversion comes to its end.
\<close>

lemma try_body_cases [case_names HookRaises DownloadRaises NoConversion PopenRaises ReadRaises Converted]:
  fixes self w idx url fn
  defines "opts \<equiv> make_ydl_opts self w idx fn"
  obtains
    ds outcome hevs err where
      "ydl_extract_info w idx opts url = (ds, outcome)"
      "run_hooks self fn idx ds = (hevs, Some err)"
      "try_body self w idx (url, fn) = (ExtractInfo url opts # hevs, Inl err)"
  | ds hevs err where
      "ydl_extract_info w idx opts url = (ds, Inl err)"
      "run_hooks self fn idx ds = (hevs, None)"
      "try_body self w idx (url, fn) = (ExtractInfo url opts # hevs, Inl err)"
  | ds hevs info where
      "ydl_extract_info w idx opts url = (ds, Inr info)"
      "run_hooks self fn idx ds = (hevs, None)"
      "\<not> to_mp3 self"
      "try_body self w idx (url, fn) =
         (ExtractInfo url opts # hevs, Inr (video_path self w (item_title fn info)))"
  | ds hevs info err where
      "ydl_extract_info w idx opts url = (ds, Inr info)"
      "run_hooks self fn idx ds = (hevs, None)"
      "to_mp3 self"
      "ffmpeg w idx (ffmpeg_cmd (video_path self w (item_title fn info))
                                 (audio_path self w (item_title fn info))) = PopenRaises err"
      "try_body self w idx (url, fn) =
         (ExtractInfo url opts # hevs @
          [Popen (ffmpeg_cmd (video_path self w (item_title fn info))
                             (audio_path self w (item_title fn info)))], Inl err)"
  | ds hevs info lines err where
      "ydl_extract_info w idx opts url = (ds, Inr info)"
      "run_hooks self fn idx ds = (hevs, None)"
      "to_mp3 self"
      "ffmpeg w idx (ffmpeg_cmd (video_path self w (item_title fn info))
                                 (audio_path self w (item_title fn info))) =
         PopenRuns lines (Some err)"
      "try_body self w idx (url, fn) =
         (ExtractInfo url opts # hevs @
          [Popen (ffmpeg_cmd (video_path self w (item_title fn info))
                             (audio_path self w (item_title fn info)))] @
          scan_stdout self (item_title fn info) idx lines, Inl err)"
  | ds hevs info lines where
      "ydl_extract_info w idx opts url = (ds, Inr info)"
      "run_hooks self fn idx ds = (hevs, None)"
      "to_mp3 self"
      "ffmpeg w idx (ffmpeg_cmd (video_path self w (item_title fn info))
                                 (audio_path self w (item_title fn info))) =
         PopenRuns lines None"
      "try_body self w idx (url, fn) =
         (ExtractInfo url opts # hevs @
          [Popen (ffmpeg_cmd (video_path self w (item_title fn info))
                             (audio_path self w (item_title fn info)))] @
          scan_stdout self (item_title fn info) idx lines @ [ProcessWait] @
          ProgressUpdate 100 (ascii ''Conversion finished: '' @ item_title fn info) #
          log self (ascii ''Conversion finished: '' @ item_title fn info),
          Inr (video_path self w (item_title fn info) @
               (if audio_path self w (item_title fn info) = [] then []
                else 0xA # audio_path self w (item_title fn info))))"
proof -
  obtain ds outcome where x: "ydl_extract_info w idx opts url = (ds, outcome)"
    by (cases "ydl_extract_info w idx opts url")
  obtain hevs r where h: "run_hooks self fn idx ds = (hevs, r)"
    by (cases "run_hooks self fn idx ds")
  note defs = try_body_def opts_def [symmetric] x h Let_def video_path_def audio_path_def
    item_title_def
  show thesis
  proof (cases r)
    case (Some err)
    show thesis
      by (rule that(1) [of ds outcome hevs err]) (use x h Some in \<open>simp_all add: defs\<close>)
  next
    case None
    show thesis
    proof (cases outcome)
      case (Inl err)
      show thesis
        by (rule that(2) [of ds err hevs]) (use x h None Inl in \<open>simp_all add: defs\<close>)
    next
      case (Inr info)
      show thesis
      proof (cases "to_mp3 self")
        case False
        show thesis
          by (rule that(3) [of ds info hevs]) (use x h None Inr False in \<open>simp_all add: defs\<close>)
      next
        case True
        show thesis
        proof (cases "ffmpeg w idx (ffmpeg_cmd (video_path self w (item_title fn info))
                                 (audio_path self w (item_title fn info)))")
          case (PopenRaises err)
          show thesis
            by (rule that(4) [of ds info hevs err]) (use x h None Inr True PopenRaises in \<open>simp_all add: defs\<close>)
        next
          case (PopenRuns lines r')
          show thesis
          proof (cases r')
            case (Some err)
            show thesis
              by (rule that(5) [of ds info hevs lines err]) (use x h None Inr True PopenRuns Some in \<open>simp_all add: defs\<close>)
          next
            case None': None
            show thesis
              by (rule that(6) [of ds info hevs lines]) (use x h None Inr True PopenRuns None' in \<open>simp_all add: defs\<close>)
          qed
        qed
      qed
    qed
  qed
qed


subsection \<open>One call of the download function per item\<close>

lemma try_body_calls:
  "extract_calls (fst (try_body self w idx (url, fn))) = [(url, make_ydl_opts self w idx fn)]"
proof (cases rule: try_body_cases [of w idx self fn url])
  case (HookRaises ds outcome hevs err)
  then show ?thesis by (simp add: reports_no_calls run_hooks_reports)
next
  case (DownloadRaises ds hevs err)
  then show ?thesis by (simp add: reports_no_calls run_hooks_reports)
next
  case (NoConversion ds hevs info)
  then show ?thesis by (simp add: reports_no_calls run_hooks_reports)
next
  case (PopenRaises ds hevs info err)
  then show ?thesis by (simp add: extract_calls_append reports_no_calls run_hooks_reports)
next
  case (ReadRaises ds hevs info lines err)
  then show ?thesis
    by (simp add: extract_calls_append reports_no_calls run_hooks_reports scan_stdout_reports)
next
  case (Converted ds hevs info lines)
  then show ?thesis
    by (simp add: extract_calls_append reports_no_calls run_hooks_reports scan_stdout_reports
        log_reports)
qed

lemma item_events_calls:
  "extract_calls (item_events self w (idx, url, fn)) = [(url, make_ydl_opts self w idx fn)]"
  using try_body_calls [of self w idx url fn]
  by (cases "try_body self w idx (url, fn)")
     (auto simp: item_events_def process_item_def extract_calls_append reports_no_calls
        log_reports split: sum.splits)

lemma extract_calls_concat:
  "extract_calls (concat (map f xs)) = concat (map (\<lambda>x. extract_calls (f x)) xs)"
  by (induction xs) (simp_all add: extract_calls_append)


lemma extract_calls_run:
  assumes "os_makedirs w (output_dir self) = None"
  shows "extract_calls (run self w) =
     map (\<lambda>(idx, url, fn). (url, make_ydl_opts self w idx fn)) (List.enumerate 1 (tasks self))"
  (is "_ = map ?f ?ts")
proof -
  have "extract_calls (run self w) = concat (map (\<lambda>it. extract_calls (item_events self w it)) ?ts)"
    by (simp add: run_eq [OF assms] extract_calls_append extract_calls_concat)
  also have "\<dots> = concat (map (\<lambda>it. [?f it]) ?ts)"
    by (rule arg_cong [where f = concat], rule map_cong) (auto simp: item_events_calls)
  also have "\<dots> = map ?f ?ts"
    by (induction ?ts) simp_all
  finally show ?thesis .
qed

lemma extract_calls_run_blocked:
  "os_makedirs w (output_dir self) = Some err \<Longrightarrow> extract_calls (run self w) = []"
  by (simp add: run_blocked)

lemmas example_defs =
  example_thread_def example_env_def try_body_def make_ydl_opts_def progress_hook_def
  hook_percent_def percent_of_def py_truediv_def binary64_def bit_length.simps
  round_half_even_def float_times_100_def py_int_def log_def counter_def str_nat.simps
  py_or_def posix_join_def ffmpeg_cmd_def ascii_def Let_def

lemma example_makedirs: "os_makedirs example_env path = None"
  by (simp add: example_env_def)

lemma blocked_makedirs:
  "os_makedirs blocked_env path = Some (PyException (ascii ''[Errno 17] File exists''))"
  by (simp add: blocked_env_def)

lemma blocked_run:
  "run self blocked_env =
     [MakeDirs (output_dir self), Uncaught (PyException (ascii ''[Errno 17] File exists''))]"
  by (rule run_blocked) (rule blocked_makedirs)




subsection \<open>The result strings\<close>




lemma try_body_reports_only:
  "filter is_finished (fst (try_body self w idx (url, fn))) = []"
proof -
  have nf: "list_all is_report evs \<Longrightarrow> filter is_finished evs = []" for evs
    using reports_not_finished [of evs] by (simp add: filter_empty_conv list_all_iff)
  show ?thesis
    by (cases rule: try_body_cases [of w idx self fn url])
       (simp_all add: nf run_hooks_reports scan_stdout_reports log_reports)
qed

lemma item_events_not_finished: "filter is_finished (item_events self w it) = []"
proof -
  have nf: "list_all is_report evs \<Longrightarrow> filter is_finished evs = []" for evs
    using reports_not_finished [of evs] by (simp add: filter_empty_conv list_all_iff)
  obtain idx url fn where it: "it = (idx, url, fn)" by (cases it) auto
  show ?thesis
    using try_body_reports_only [of self w idx url fn]
    by (cases "try_body self w idx (url, fn)")
       (auto simp: it item_events_def process_item_def nf log_reports split: sum.splits)
qed







section \<open>From the text box to the task list\<close>

lemma py_strip_empty_iff: "py_strip s = [] \<longleftrightarrow> is_blank s"
proof -
  have "dropWhile is_space (rev (dropWhile is_space s)) = [] \<longleftrightarrow> dropWhile is_space s = []"
  proof
    assume a: "dropWhile is_space (rev (dropWhile is_space s)) = []"
    show "dropWhile is_space s = []"
    proof (rule ccontr)
      assume n: "dropWhile is_space s \<noteq> []"
      then have "\<not> is_space (hd (dropWhile is_space s))"
        by (rule hd_dropWhile)
      moreover have "hd (dropWhile is_space s) \<in> set (rev (dropWhile is_space s))"
        using n by simp
      ultimately show False
        using a by (auto simp: dropWhile_eq_Nil_conv)
    qed
  next
    assume e: "dropWhile is_space s = []"
    show "dropWhile is_space (rev (dropWhile is_space s)) = []"
      unfolding e by simp
  qed
  also have "\<dots> \<longleftrightarrow> is_blank s"
    by (simp add: is_blank_def dropWhile_eq_Nil_conv list_all_iff)
  finally show ?thesis
    by (simp add: py_strip_def)
qed

lemma tl_dropWhile_eq_drop:
  "tl (dropWhile P xs) = drop (Suc (length (takeWhile P xs))) xs"
  by (simp add: dropWhile_eq_drop drop_Suc tl_drop)

lemma build_tasks_eq:
  "build_tasks lines acc = acc @ map spec_task (filter (\<lambda>line. \<not> is_blank line) lines)"
proof (induction lines arbitrary: acc)
  case Nil
  show ?case by simp
next
  case (Cons line lines)
  show ?case
  proof (cases "is_blank line")
    case True
    then show ?thesis using Cons by (simp add: py_strip_empty_iff)
  next
    case False
    then show ?thesis
      using Cons by (simp add: py_strip_empty_iff tl_dropWhile_eq_drop spec_task_def Let_def)
  qed
qed

lemma py_splitlines_Nil_iff: "py_splitlines s = [] \<longleftrightarrow> s = []"
  by (subst py_splitlines.simps) (simp split: list.splits)

text \<open>
  Claim C4. \<open>start_download\<close> gives the worker the task list that the specification
  describes: the lines of the text, blank ones left out, each cut at its first comma
  into stripped URL and stripped name, with no name where there is no comma. (Without
  any line there is no worker.)
\<close>

theorem start_download_builds_task_list:
  "map_option tasks (snd (start_download gui)) =
     (if py_splitlines (urls_text gui) = [] then None else Some (spec_tasks (urls_text gui)))"
  by (simp add: start_download_def Let_def build_tasks_eq spec_tasks_def)

lemma example_lines:
  "py_splitlines (urls_text example_window) =
     [ascii ''https://a, v'', [0x3000], ascii ''https://b'']"
  by (simp add: example_window_def ascii_def py_splitlines.simps is_linebreak_def)

theorem start_download_builds_task_list_witness:
  "map_option tasks (snd (start_download example_window)) =
     Some [(ascii ''https://a'', Some (ascii ''v'')), (ascii ''https://b'', None)]"
proof -
  have "spec_tasks (urls_text example_window) =
          [(ascii ''https://a'', Some (ascii ''v'')), (ascii ''https://b'', None)]"
    by (simp add: spec_tasks_def example_lines)
       (simp add: spec_task_def is_blank_def py_strip_def is_space_def ascii_def)
  then show ?thesis
    using start_download_builds_task_list [of example_window]
    by (simp add: example_lines)
qed

text \<open>
  Claim C9, as the code has it. With an empty text box \<open>start_download\<close> shows the error
  box and starts no worker. With a text that is not empty but has blank lines only, the
  check for emptiness passes and the worker is started with no task; when the output
  directory can be created, its run emits the finished signal with an empty list of
  results.
\<close>

theorem empty_text_is_refused_blank_text_runs_empty:
  "(urls_text gui = [] \<longrightarrow>
      (\<exists>ttl msg. start_download gui = ([MessageBoxCritical ttl msg], None) \<and>
                 click_download gui w = [MessageBoxCritical ttl msg])) \<and>
   (urls_text gui \<noteq> [] \<and> list_all is_blank (py_splitlines (urls_text gui)) \<longrightarrow>
      (\<exists>thr. start_download gui = ([ProgressDialogShow], Some thr) \<and> tasks thr = [] \<and>
             (os_makedirs w (output_dir thr) = None \<longrightarrow>
                run thr w = [MakeDirs (output_dir thr), FinishedSignal []])))"
proof (intro conjI impI)
  assume "urls_text gui = []"
  then have "py_splitlines (urls_text gui) = []"
    by (simp add: py_splitlines_Nil_iff)
  then show "\<exists>ttl msg. start_download gui = ([MessageBoxCritical ttl msg], None) \<and>
                 click_download gui w = [MessageBoxCritical ttl msg]"
    by (simp add: click_download_def start_download_def Let_def)
next
  assume a: "urls_text gui \<noteq> [] \<and> list_all is_blank (py_splitlines (urls_text gui))"
  then have ne: "py_splitlines (urls_text gui) \<noteq> []"
    by (simp add: py_splitlines_Nil_iff)
  have "filter (\<lambda>line. \<not> is_blank line) (py_splitlines (urls_text gui)) = []"
    using a by (simp add: filter_empty_conv list_all_iff)
  then have "build_tasks (py_splitlines (urls_text gui)) [] = []"
    by (simp add: build_tasks_eq)
  with ne show "\<exists>thr. start_download gui = ([ProgressDialogShow], Some thr) \<and> tasks thr = [] \<and>
             (os_makedirs w (output_dir thr) = None \<longrightarrow>
                run thr w = [MakeDirs (output_dir thr), FinishedSignal []])"
    by (simp add: start_download_def Let_def run_def)
qed

lemma example_blank_lines:
  "py_splitlines [0xA, 0x20, 0xA] = [[], [0x20]]"
  by (simp add: py_splitlines.simps is_linebreak_def)

lemma example_blank_start:
  "start_download (example_window\<lparr>urls_text := [0xA, 0x20, 0xA]\<rparr>) =
     ([ProgressDialogShow],
      Some \<lparr> tasks = [], output_dir = ascii ''out'', to_mp3 = True,
             cookies_file = Some (ascii ''c.txt''), log_file = Some (ascii ''logs/x.log'') \<rparr>)"
  by (simp add: start_download_def Let_def example_blank_lines)
     (simp add: example_window_def py_or_def py_strip_def is_space_def ascii_def)

theorem empty_text_is_refused_blank_text_runs_empty_witness:
  "urls_text (example_window\<lparr>urls_text := []\<rparr>) = [] \<and>
   snd (start_download (example_window\<lparr>urls_text := []\<rparr>)) = None \<and>
   urls_text (example_window\<lparr>urls_text := [0xA, 0x20, 0xA]\<rparr>) \<noteq> [] \<and>
   list_all is_blank (py_splitlines (urls_text (example_window\<lparr>urls_text := [0xA, 0x20, 0xA]\<rparr>))) \<and>
   (\<exists>thr. snd (start_download (example_window\<lparr>urls_text := [0xA, 0x20, 0xA]\<rparr>)) = Some thr \<and>
          os_makedirs example_env (output_dir thr) = None \<and>
          run thr example_env = [MakeDirs (ascii ''out''), FinishedSignal []])"
proof -
  let ?e = "example_window\<lparr>urls_text := []\<rparr>"
  let ?b = "example_window\<lparr>urls_text := [0xA, 0x20, 0xA]\<rparr>"
  have blank: "list_all is_blank (py_splitlines (urls_text ?b))"
    by (simp add: example_blank_lines is_blank_def is_space_def)
  have 1: "snd (start_download ?e) = None"
    using empty_text_is_refused_blank_text_runs_empty [of ?e example_env] by auto
  obtain thr where thr: "start_download ?b = ([ProgressDialogShow], Some thr)"
    "run thr example_env = [MakeDirs (output_dir thr), FinishedSignal []]"
    using empty_text_is_refused_blank_text_runs_empty [of ?b example_env] blank
      example_makedirs by auto
  have "output_dir thr = ascii ''out''"
    using thr(1) by (auto simp: example_blank_start)
  with 1 thr blank example_makedirs show ?thesis by simp
qed

text \<open>
  Claim C9 as worded fails when the output directory cannot be created: the worker is
  started with no task, the exception of \<open>os.makedirs\<close> leaves its \<open>run\<close>, and no finished
  signal is emitted.
\<close>

theorem blank_text_no_signal_when_directory_fails:
  "click_download (example_window\<lparr>urls_text := [0xA, 0x20, 0xA]\<rparr>) blocked_env =
     [ProgressDialogShow, MakeDirs (ascii ''out''),
      Uncaught (PyException (ascii ''[Errno 17] File exists''))]"
  by (simp add: click_download_def example_blank_start blocked_run)

section \<open>The options of the download function\<close>

lemma in_enumerate_iff:
  "(idx, x) \<in> set (List.enumerate n xs) \<longleftrightarrow> (\<exists>i<length xs. idx = n + i \<and> x = xs ! i)"
proof
  assume "(idx, x) \<in> set (List.enumerate n xs)"
  then have "n \<le> idx" "idx < length xs + n" "x = xs ! (idx - n)"
    by (auto simp: in_set_enumerate_eq)
  then have "idx - n < length xs \<and> idx = n + (idx - n) \<and> x = xs ! (idx - n)"
    by auto
  then show "\<exists>i<length xs. idx = n + i \<and> x = xs ! i"
    by blast
next
  assume "\<exists>i<length xs. idx = n + i \<and> x = xs ! i"
  then show "(idx, x) \<in> set (List.enumerate n xs)"
    by (auto simp: in_set_enumerate_eq)
qed

lemma calls_of_run:
  assumes "(url, opts) \<in> set (extract_calls (run self w))"
  shows "\<exists>i fn. i < length (tasks self) \<and> tasks self ! i = (url, fn) \<and>
                 opts = make_ydl_opts self w (Suc i) fn"
proof (cases "os_makedirs w (output_dir self)")
  case (Some err)
  with assms show ?thesis by (simp add: extract_calls_run_blocked)
next
  case None
  with assms obtain idx fn where
    it: "(idx, url, fn) \<in> set (List.enumerate 1 (tasks self))" and
    opts: "opts = make_ydl_opts self w idx fn"
    by (auto simp: extract_calls_run)
  from it obtain i where "i < length (tasks self)" "idx = Suc i" "tasks self ! i = (url, fn)"
    by (auto simp: in_enumerate_iff)
  with opts show ?thesis by blast
qed





section \<open>A cookie file that does not exist\<close>

lemma log_cookies: "log (self\<lparr>cookies_file := c\<rparr>) m = log self m"
  by (simp add: log_def)

lemma counter_cookies: "counter (self\<lparr>cookies_file := c\<rparr>) idx = counter self idx"
  by (simp add: counter_def)

lemma progress_hook_cookies:
  "progress_hook (self\<lparr>cookies_file := c\<rparr>) fn idx d = progress_hook self fn idx d"
  by (simp add: progress_hook_def log_cookies counter_cookies cong: if_cong sum.case_cong)

lemma run_hooks_cookies:
  "run_hooks (self\<lparr>cookies_file := c\<rparr>) fn idx ds = run_hooks self fn idx ds"
  by (induction ds) (simp_all add: progress_hook_cookies cong: sum.case_cong)

lemma scan_stdout_cookies:
  "scan_stdout (self\<lparr>cookies_file := c\<rparr>) ttl idx ls = scan_stdout self ttl idx ls"
  by (induction ls) (simp_all add: log_cookies counter_cookies)

lemma make_ydl_opts_missing_cookies:
  assumes "cookies_file self = Some c" and "\<forall>idx. \<not> os_path_exists w idx c"
  shows "make_ydl_opts self w idx fn = make_ydl_opts (self\<lparr>cookies_file := None\<rparr>) w idx fn"
    and "cookiefile (make_ydl_opts self w idx fn) = None"
  using assms by (simp_all add: make_ydl_opts_def cong: option.case_cong if_cong)

lemma process_item_missing_cookies:
  assumes "cookies_file self = Some c" and "\<forall>idx. \<not> os_path_exists w idx c"
  shows "process_item (self\<lparr>cookies_file := None\<rparr>) w idx t = process_item self w idx t"
  by (simp add: process_item_def try_body_def make_ydl_opts_missing_cookies(1) [OF assms, symmetric]
      run_hooks_cookies scan_stdout_cookies log_cookies
      cong: prod.case_cong sum.case_cong option.case_cong popen_outcome.case_cong if_cong)

lemma run_loop_missing_cookies:
  assumes "cookies_file self = Some c" and "\<forall>idx. \<not> os_path_exists w idx c"
  shows "run_loop (self\<lparr>cookies_file := None\<rparr>) w idx ts acc = run_loop self w idx ts acc"
  by (induction ts arbitrary: idx acc) (simp_all add: process_item_missing_cookies [OF assms])

text \<open>
  Claim C10. When a cookies file is named and no file exists at that path, no call of
  the download function gets the cookie-file option, and nothing else changes: the run
  is, event for event and result for result, the run of a thread that was given no
  cookies file at all, so no error comes from the missing file.
\<close>

theorem missing_cookie_file_is_left_out:
  assumes "cookies_file self = Some c" and "\<forall>idx. \<not> os_path_exists w idx c"
  shows "list_all (\<lambda>call. cookiefile (snd call) = None) (extract_calls (run self w)) \<and>
         run self w = run (self\<lparr>cookies_file := None\<rparr>) w"
proof
  show "list_all (\<lambda>call. cookiefile (snd call) = None) (extract_calls (run self w))"
    unfolding list_all_iff
  proof
    fix call
    assume "call \<in> set (extract_calls (run self w))"
    then obtain i fn where "snd call = make_ydl_opts self w (Suc i) fn"
      using calls_of_run [of "fst call" "snd call" self w] by auto
    then show "cookiefile (snd call) = None"
      by (simp add: make_ydl_opts_missing_cookies(2) [OF assms])
  qed
  show "run self w = run (self\<lparr>cookies_file := None\<rparr>) w"
    by (simp add: run_def run_loop_missing_cookies [OF assms] split: option.splits)
qed

theorem missing_cookie_file_is_left_out_witness:
  "cookies_file example_thread = Some (ascii ''c.txt'') \<and>
   (\<forall>idx. \<not> os_path_exists example_env idx (ascii ''c.txt'')) \<and>
   list_all (\<lambda>call. cookiefile (snd call) = None) (extract_calls (run example_thread example_env)) \<and>
   run example_thread example_env = run (example_thread\<lparr>cookies_file := None\<rparr>) example_env"
proof -
  have c: "cookies_file example_thread = Some (ascii ''c.txt'')"
    by (simp add: example_thread_def)
  have n: "\<forall>idx. \<not> os_path_exists example_env idx (ascii ''c.txt'')"
    by (simp add: example_env_def)
  from missing_cookie_file_is_left_out [OF c n] c n show ?thesis by blast
qed

section \<open>Exceptions and transcoding, item by item\<close>






lemma example_start:
  "start_download example_window = ([ProgressDialogShow], Some example_thread)"
proof -
  have "py_splitlines (urls_text example_window) =
     [ascii ''https://a, v'', [0x3000], ascii ''https://b'']"
    by (simp add: example_window_def ascii_def py_splitlines.simps is_linebreak_def)
  then show ?thesis
    by (simp add: start_download_def Let_def)
       (simp add: example_window_def example_thread_def py_or_def py_strip_def is_space_def
          ascii_def)
qed




section \<open>Transcoding\<close>

lemma log_no_progress: "filter is_progress (log self m) = []"
  by (simp add: log_def split: option.splits)

lemma scan_stdout_progress:
  "filter is_progress (scan_stdout self ttl idx lines) =
     replicate (length (filter (py_in (ascii ''time='')) lines))
       (ProgressUpdate 50 (ascii ''Converting '' @ ttl @ ascii '' to MP3'' @ counter self idx))"
  by (induction lines) (simp_all add: Let_def log_no_progress)

lemma run_contains_item:
  assumes "it \<in> set (List.enumerate 1 (tasks self))"
      and "os_makedirs w (output_dir self) = None"
  shows "\<exists>pre post. run self w = pre @ item_events self w it @ post"
proof -
  from assms(1) obtain xs ys where "List.enumerate 1 (tasks self) = xs @ it # ys"
    by (auto simp: in_set_conv_decomp)
  then have "run self w =
      (MakeDirs (output_dir self) # concat (map (item_events self w) xs)) @
      item_events self w it @
      (concat (map (item_events self w) ys) @
       [FinishedSignal (map (item_result self w) (List.enumerate 1 (tasks self)))])"
    by (simp add: run_eq [OF assms(2)])
  then show ?thesis by blast
qed

text \<open>
  Claim C6, as the code has it. For an item whose download has succeeded, the transcoder
  is started if and only if conversion to MP3 was selected, and then exactly once. When
  its output is read to the end, the events of the item are: the download, the reports
  of the hooks, the start of the transcoder, one progress report for every line that
  contains \<open>time=\<close>, the wait for the process, and the completion report of the item.
  These events are part of the run whenever the run gets to its items, that is, when
  the output directory could be created.
\<close>

theorem transcoding_after_successful_download:
  assumes "(idx, url, fn) \<in> set (List.enumerate 1 (tasks self))"
      and "ydl_extract_info w idx (make_ydl_opts self w idx fn) url = (ds, Inr info)"
      and "run_hooks self fn idx ds = (hevs, None)"
  shows "(os_makedirs w (output_dir self) = None \<longrightarrow>
            (\<exists>pre post. run self w = pre @ item_events self w (idx, url, fn) @ post)) \<and>
         filter is_popen (item_events self w (idx, url, fn)) =
           (if to_mp3 self
            then [Popen (ffmpeg_cmd (video_path self w (item_title fn info))
                                    (audio_path self w (item_title fn info)))]
            else []) \<and>
         (\<forall>lines.
            to_mp3 self \<and>
            ffmpeg w idx (ffmpeg_cmd (video_path self w (item_title fn info))
                                     (audio_path self w (item_title fn info))) =
              PopenRuns lines None \<longrightarrow>
            item_events self w (idx, url, fn) =
              ExtractInfo url (make_ydl_opts self w idx fn) # hevs @
              [Popen (ffmpeg_cmd (video_path self w (item_title fn info))
                                 (audio_path self w (item_title fn info)))] @
              scan_stdout self (item_title fn info) idx lines @
              [ProcessWait,
               ProgressUpdate 100 (ascii ''Conversion finished: '' @ item_title fn info)] @
              log self (ascii ''Conversion finished: '' @ item_title fn info) \<and>
            filter is_progress (scan_stdout self (item_title fn info) idx lines) =
              replicate (length (filter (py_in (ascii ''time='')) lines))
                (ProgressUpdate 50
                   (ascii ''Converting '' @ item_title fn info @ ascii '' to MP3'' @
                    counter self idx)))"
proof (intro conjI allI impI)
  assume "os_makedirs w (output_dir self) = None"
  with assms(1) show "\<exists>pre post. run self w = pre @ item_events self w (idx, url, fn) @ post"
    by (rule run_contains_item)
next
  show "filter is_popen (item_events self w (idx, url, fn)) =
           (if to_mp3 self
            then [Popen (ffmpeg_cmd (video_path self w (item_title fn info))
                                    (audio_path self w (item_title fn info)))]
            else [])"
    using assms(2,3)
    by (cases rule: try_body_cases [of w idx self fn url])
       (simp_all add: item_events_def process_item_def reports_no_popen run_hooks_reports
          scan_stdout_reports log_reports)
next
  fix lines
  assume a: "to_mp3 self \<and>
            ffmpeg w idx (ffmpeg_cmd (video_path self w (item_title fn info))
                                     (audio_path self w (item_title fn info))) =
              PopenRuns lines None"
  show "item_events self w (idx, url, fn) =
              ExtractInfo url (make_ydl_opts self w idx fn) # hevs @
              [Popen (ffmpeg_cmd (video_path self w (item_title fn info))
                                 (audio_path self w (item_title fn info)))] @
              scan_stdout self (item_title fn info) idx lines @
              [ProcessWait,
               ProgressUpdate 100 (ascii ''Conversion finished: '' @ item_title fn info)] @
              log self (ascii ''Conversion finished: '' @ item_title fn info)"
    using assms(2,3) a
    by (cases rule: try_body_cases [of w idx self fn url])
       (simp_all add: item_events_def process_item_def)
  show "filter is_progress (scan_stdout self (item_title fn info) idx lines) =
              replicate (length (filter (py_in (ascii ''time='')) lines))
                (ProgressUpdate 50
                   (ascii ''Converting '' @ item_title fn info @ ascii '' to MP3'' @
                    counter self idx))"
    by (rule scan_stdout_progress)
qed

lemma example_first_download:
  "ydl_extract_info example_env 1 (make_ydl_opts example_thread example_env 1 (Some (ascii ''v'')))
     (ascii ''https://a'') =
     ([\<lparr> status = ascii ''downloading'', downloaded_bytes = Some (PyInt 50),
        total_bytes = Some (PyInt 200) \<rparr>,
       \<lparr> status = ascii ''finished'', downloaded_bytes = Some (PyInt 200),
        total_bytes = Some (PyInt 200) \<rparr>],
      Inr \<lparr> title = Some (ascii ''A'') \<rparr>)"
  by (simp add: example_env_def)

lemma example_first_hooks:
  "run_hooks example_thread (Some (ascii ''v'')) 1
     [\<lparr> status = ascii ''downloading'', downloaded_bytes = Some (PyInt 50),
        total_bytes = Some (PyInt 200) \<rparr>,
      \<lparr> status = ascii ''finished'', downloaded_bytes = Some (PyInt 200),
        total_bytes = Some (PyInt 200) \<rparr>] =
     ([ProgressUpdate 25 (ascii ''Downloading v (1/2)''),
       LogLine (ascii ''logs/x.log'') (ascii ''Downloading v (1/2)''),
       ProgressUpdate 100 (ascii ''Download finished: v (1/2)''),
       LogLine (ascii ''logs/x.log'') (ascii ''Download finished: v (1/2)'')], None)"
  by (simp add: example_defs)

theorem transcoding_after_successful_download_witness:
  "(1, ascii ''https://a'', Some (ascii ''v'')) \<in> set (List.enumerate 1 (tasks example_thread)) \<and>
   os_makedirs example_env (output_dir example_thread) = None \<and>
   to_mp3 example_thread \<and>
   filter is_popen (item_events example_thread example_env (1, ascii ''https://a'', Some (ascii ''v''))) =
     [Popen (ffmpeg_cmd (ascii ''out/v.mp4'') (ascii ''out/v.mp3''))]"
proof -
  have m: "(1, ascii ''https://a'', Some (ascii ''v'')) \<in> set (List.enumerate 1 (tasks example_thread))"
    by (simp add: example_thread_def)
  have t: "to_mp3 example_thread"
    by (simp add: example_thread_def)
  have p: "video_path example_thread example_env (item_title (Some (ascii ''v'')) \<lparr> title = Some (ascii ''A'') \<rparr>) = ascii ''out/v.mp4''"
    "audio_path example_thread example_env (item_title (Some (ascii ''v'')) \<lparr> title = Some (ascii ''A'') \<rparr>) = ascii ''out/v.mp3''"
    by (simp_all add: video_path_def audio_path_def item_title_def example_defs)
  from transcoding_after_successful_download [OF m example_first_download example_first_hooks] m t p
  show ?thesis by (simp add: example_makedirs)
qed

text \<open>
  Claim C6 as worded, "for each item", fails for an item whose download raises: no
  transcoder is started for it although conversion to MP3 is selected.
\<close>

theorem no_transcoding_after_failed_download:
  "to_mp3 (example_thread\<lparr>tasks := [(ascii ''https://b'', None)]\<rparr>) \<and>
   filter is_popen (run (example_thread\<lparr>tasks := [(ascii ''https://b'', None)]\<rparr>) example_env) = []"
  by (simp add: run_def process_item_def try_body_def log_def example_env_def example_thread_def
      ascii_def)

section \<open>Progress percentages\<close>

lemma log_in_range: "list_all percent_in_range (log self m)"
  by (simp add: log_def split: option.splits)

lemma conversion_reports_in_range:
  "list_all percent_in_range (scan_stdout self ttl idx lines)"
  "list_all percent_in_range
     (ProgressUpdate 100 (ascii ''Conversion finished: '' @ ttl) #
      log self (ascii ''Conversion finished: '' @ ttl))"
  by (induction lines) (simp_all add: Let_def log_in_range)

lemma finished_report_in_range:
  "status d = ascii ''finished'' \<Longrightarrow> progress_hook self fn idx d = Inr evs \<Longrightarrow>
   list_all percent_in_range evs"
  by (auto simp: progress_hook_def Let_def log_in_range ascii_def)

lemma unknown_total_raises:
  "progress_hook self fn idx
     \<lparr> status = ascii ''downloading'', downloaded_bytes = Some (PyInt 2048),
       total_bytes = Some PyNone \<rparr> =
     Inl (PyException
            ([0x27, 0x3E, 0x27] @ ascii '' not supported between instances of '' @
             [0x27] @ ascii ''int'' @ [0x27] @ ascii '' and '' @
             [0x27] @ ascii ''NoneType'' @ [0x27]))"
  by (simp add: progress_hook_def hook_percent_def)

text \<open>
  Claim C7. The percentage of a progress event should lie between 0 and 100. It does for
  the reports of the conversion (50 and 100) and for a \<open>finished\<close> dictionary (100), but
  not for a \<open>downloading\<close> dictionary without \<open>total_bytes\<close>, as the download library
  sends when it knows an estimate only: the default 1 for the missing total makes the
  "percentage" one hundred times the number of bytes.
\<close>

theorem progress_percentage_above_100:
  "progress_hook example_thread (Some (ascii ''v'')) 1
     \<lparr> status = ascii ''downloading'', downloaded_bytes = Some (PyInt 2048),
       total_bytes = None \<rparr> =
     Inr [ProgressUpdate 204800 (ascii ''Downloading v (1/2)''),
          LogLine (ascii ''logs/x.log'') (ascii ''Downloading v (1/2)'')]"
  by (simp add: example_defs)

section \<open>The log file of the window\<close>

lemma run_ends_with_finished:
  assumes "os_makedirs w (output_dir self) = None"
  shows "\<exists>pre results. run self w = pre @ [FinishedSignal results] \<and>
           filter is_finished pre = []"
proof (intro exI conjI)
  show "run self w =
          (MakeDirs (output_dir self) #
           concat (map (item_events self w) (List.enumerate 1 (tasks self)))) @
          [FinishedSignal (map (item_result self w) (List.enumerate 1 (tasks self)))]"
    by (simp add: run_eq [OF assms])
  show "filter is_finished
          (MakeDirs (output_dir self) #
           concat (map (item_events self w) (List.enumerate 1 (tasks self)))) = []"
    by (simp add: filter_concat item_events_not_finished comp_def)
qed

lemma finished_in_run:
  assumes "FinishedSignal results \<in> set (run self w)"
  shows "\<exists>pre. run self w = pre @ [FinishedSignal results] \<and> filter is_finished pre = []"
proof (cases "os_makedirs w (output_dir self)")
  case (Some err)
  with assms show ?thesis by (simp add: run_blocked)
next
  case None
  from run_ends_with_finished [OF None] obtain pre rs where
    run: "run self w = pre @ [FinishedSignal rs]" and nf: "filter is_finished pre = []"
    by blast
  have "FinishedSignal results \<notin> set pre"
    using nf by (auto simp: filter_empty_conv)
  with assms run have "rs = results" by auto
  with run nf show ?thesis by blast
qed

lemma deliver_unfinished:
  assumes "filter is_finished evs = []"
  shows "log_written f (concat (map (\<lambda>ev. ev # deliver gui ev) evs)) = log_written f evs"
    and "filter is_finished (concat (map (\<lambda>ev. ev # deliver gui ev) evs)) = []"
  using assms
proof (induction evs)
  case Nil
  {
    case 1
    show ?case by (simp add: log_written_def)
  next
    case 2
    show ?case by simp
  }
next
  case (Cons ev evs)
  {
    case 1
    then show ?case
      using Cons(1) by (cases ev) (simp_all add: log_written_def update_progress_def split: if_splits)
  next
    case 2
    then show ?case
      using Cons(2) by (cases ev) (simp_all add: update_progress_def split: if_splits)
  }
qed

text \<open>
  Claim C8, as the code has it. The log file belongs to the window, not to a run: it is
  created once, when the window is built, in the directory \<open>logs\<close> under a name made
  from the time stamp of that moment, and every worker the window starts writes to it.
  After the finished signal of a run, which carries all its result strings, the
  completion marker is appended to that file; nothing of the run is written after it.
\<close>

theorem window_log_file_and_completion_marker:
  "window_log_file (fst (init w now)) =
     os_path_join w (ascii ''logs'') (strftime_stamp now @ ascii ''.log'') \<and>
   snd (init w now) = [MakeDirs (ascii ''logs''), OpenLog (window_log_file (fst (init w now)))] \<and>
   (\<forall>thr. snd (start_download gui) = Some thr \<longrightarrow>
      log_file thr = Some (window_log_file gui) \<and>
      (\<forall>results. FinishedSignal results \<in> set (run thr w) \<longrightarrow>
         (\<exists>evs.
            click_download gui w =
              evs @ [FinishedSignal results, ProgressDialogClose,
                     LogRaw (window_log_file gui)
                      ([0xA] @ ascii ''=== '' @ [0x5B8C, 0x4E86] @ ascii '' ==='' @ [0xA]),
                     MessageBoxInformation [0x5B8C, 0x4E86] (py_join [0xA, 0xA] results)] \<and>
            filter is_finished evs = [] \<and>
            log_written (window_log_file gui) (click_download gui w) =
              log_written (window_log_file gui) (run thr w) @
              [LogRaw (window_log_file gui)
                      ([0xA] @ ascii ''=== '' @ [0x5B8C, 0x4E86] @ ascii '' ==='' @ [0xA])])))"
proof (intro conjI allI impI)
  show "window_log_file (fst (init w now)) =
     os_path_join w (ascii ''logs'') (strftime_stamp now @ ascii ''.log'')"
    by (simp add: init_def create_logger_def Let_def)
  show "snd (init w now) = [MakeDirs (ascii ''logs''), OpenLog (window_log_file (fst (init w now)))]"
    by (simp add: init_def create_logger_def Let_def)
next
  fix thr
  assume s: "snd (start_download gui) = Some thr"
  show "log_file thr = Some (window_log_file gui)"
    using s by (auto simp: start_download_def Let_def split: if_splits)
next
  fix thr results
  assume s: "snd (start_download gui) = Some thr"
    and fin: "FinishedSignal results \<in> set (run thr w)"
  from s have sd: "start_download gui = ([ProgressDialogShow], Some thr)"
    by (auto simp: start_download_def Let_def split: if_splits)
  obtain pre where
    run: "run thr w = pre @ [FinishedSignal results]" and nf: "filter is_finished pre = []"
    using finished_in_run [OF fin] by blast
  let ?f = "window_log_file gui"
  let ?evs = "ProgressDialogShow # concat (map (\<lambda>ev. ev # deliver gui ev) pre)"
  have click: "click_download gui w =
      ?evs @ [FinishedSignal results, ProgressDialogClose, LogRaw ?f
                      ([0xA] @ ascii ''=== '' @ [0x5B8C, 0x4E86] @ ascii '' ==='' @ [0xA]),
              MessageBoxInformation [0x5B8C, 0x4E86] (py_join [0xA, 0xA] results)]"
    by (simp add: click_download_def sd run download_finished_def completion_marker_def)
  have nf': "filter is_finished ?evs = []"
    using deliver_unfinished(2) [OF nf] by simp
  have "log_written ?f (click_download gui w) =
          log_written ?f pre @ [LogRaw ?f
                      ([0xA] @ ascii ''=== '' @ [0x5B8C, 0x4E86] @ ascii '' ==='' @ [0xA])]"
    using deliver_unfinished(1) [OF nf, of ?f gui] by (simp add: click log_written_def)
  also have "log_written ?f pre = log_written ?f (run thr w)"
    by (simp add: run log_written_def)
  finally have lw: "log_written ?f (click_download gui w) =
      log_written ?f (run thr w) @ [LogRaw ?f
                      ([0xA] @ ascii ''=== '' @ [0x5B8C, 0x4E86] @ ascii '' ==='' @ [0xA])]" .
  from click nf' lw
  show "\<exists>evs.
            click_download gui w =
              evs @ [FinishedSignal results, ProgressDialogClose,
                     LogRaw (window_log_file gui)
                      ([0xA] @ ascii ''=== '' @ [0x5B8C, 0x4E86] @ ascii '' ==='' @ [0xA]),
                     MessageBoxInformation [0x5B8C, 0x4E86] (py_join [0xA, 0xA] results)] \<and>
            filter is_finished evs = [] \<and>
            log_written (window_log_file gui) (click_download gui w) =
              log_written (window_log_file gui) (run thr w) @
              [LogRaw (window_log_file gui)
                      ([0xA] @ ascii ''=== '' @ [0x5B8C, 0x4E86] @ ascii '' ==='' @ [0xA])]"
    by blast
qed

theorem window_log_file_and_completion_marker_witness:
  "snd (start_download example_window) = Some example_thread \<and>
   (\<exists>results. FinishedSignal results \<in> set (run example_thread example_env)) \<and>
   log_file example_thread = Some (window_log_file example_window) \<and>
   log_written (window_log_file example_window) (click_download example_window example_env) =
     log_written (window_log_file example_window) (run example_thread example_env) @
     [LogRaw (window_log_file example_window)
                      ([0xA] @ ascii ''=== '' @ [0x5B8C, 0x4E86] @ ascii '' ==='' @ [0xA])]"
proof -
  have s: "snd (start_download example_window) = Some example_thread"
    by (simp add: example_start)
  obtain pre results where "run example_thread example_env = pre @ [FinishedSignal results]"
    using run_ends_with_finished [OF example_makedirs, of example_thread] by blast
  then have fin: "FinishedSignal results \<in> set (run example_thread example_env)"
    by simp
  from window_log_file_and_completion_marker [of example_env example_now example_window]
       s fin
  show ?thesis by blast
qed

lemma example_stamp: "strftime_stamp example_now = ascii ''20261103_090507''"
  by (simp add: strftime_stamp_def zero_pad_def str_nat.simps example_now_def ascii_def)

lemma example_init:
  "fst (init example_env example_now) =
     \<lparr> folder_entry = [], mp3_checkbox = False, cookies_entry = [], urls_text = [],
       window_log_file = ascii ''logs/20261103_090507.log'' \<rparr>"
  by (simp add: init_def create_logger_def Let_def example_stamp)
     (simp add: example_env_def posix_join_def ascii_def)

lemma example_refused:
  "ydl_extract_info example_env idx opts (ascii ''https://b'') =
     ([], Inl (PyException (ascii ''Unsupported URL'')))"
  "ydl_extract_info example_env idx opts (ascii ''https://c'') =
     ([], Inl (PyException (ascii ''Unsupported URL'')))"
  by (simp_all add: example_env_def ascii_def)

lemma example_one_line:
  "py_splitlines (ascii ''https://b'') = [ascii ''https://b'']"
  "py_splitlines (ascii ''https://c'') = [ascii ''https://c'']"
  by (simp_all add: ascii_def py_splitlines.simps is_linebreak_def)

lemma example_start_b:
  "start_download
     \<lparr> folder_entry = [], mp3_checkbox = False, cookies_entry = [],
       urls_text = ascii ''https://b'',
       window_log_file = ascii ''logs/20261103_090507.log'' \<rparr> =
     ([ProgressDialogShow],
      Some \<lparr> tasks = [(ascii ''https://b'', None)], output_dir = ascii ''downloads'',
             to_mp3 = False, cookies_file = None,
             log_file = Some (ascii ''logs/20261103_090507.log'') \<rparr>)"
  by (simp add: start_download_def Let_def example_one_line py_or_def)
     (simp add: py_strip_def is_space_def ascii_def)

lemma example_start_c:
  "start_download
     \<lparr> folder_entry = [], mp3_checkbox = False, cookies_entry = [],
       urls_text = ascii ''https://c'',
       window_log_file = ascii ''logs/20261103_090507.log'' \<rparr> =
     ([ProgressDialogShow],
      Some \<lparr> tasks = [(ascii ''https://c'', None)], output_dir = ascii ''downloads'',
             to_mp3 = False, cookies_file = None,
             log_file = Some (ascii ''logs/20261103_090507.log'') \<rparr>)"
  by (simp add: start_download_def Let_def example_one_line py_or_def)
     (simp add: py_strip_def is_space_def ascii_def)

lemma example_click_b:
  "log_written (ascii ''logs/20261103_090507.log'')
     (click_download (fst (init example_env example_now)\<lparr>urls_text := ascii ''https://b''\<rparr>)
        example_env) =
   [LogLine (ascii ''logs/20261103_090507.log'')
      (ascii ''ERROR: URL https://b - Unsupported URL''),
    LogRaw (ascii ''logs/20261103_090507.log'')
      ([0xA] @ ascii ''=== '' @ [0x5B8C, 0x4E86] @ ascii '' ==='' @ [0xA])]"
  by (simp add: click_download_def example_init example_start_b run_def example_makedirs
      process_item_def try_body_def example_refused log_def download_finished_def
      log_written_def)
     (simp add: error_log_message_def error_text_def app_only_marker_def
      completion_marker_def ascii_def)

lemma example_click_c:
  "log_written (ascii ''logs/20261103_090507.log'')
     (click_download (fst (init example_env example_now)\<lparr>urls_text := ascii ''https://c''\<rparr>)
        example_env) =
   [LogLine (ascii ''logs/20261103_090507.log'')
      (ascii ''ERROR: URL https://c - Unsupported URL''),
    LogRaw (ascii ''logs/20261103_090507.log'')
      ([0xA] @ ascii ''=== '' @ [0x5B8C, 0x4E86] @ ascii '' ==='' @ [0xA])]"
  by (simp add: click_download_def example_init example_start_c run_def example_makedirs
      process_item_def try_body_def example_refused log_def download_finished_def
      log_written_def)
     (simp add: error_log_message_def error_text_def app_only_marker_def
      completion_marker_def ascii_def)

lemma log_written_append: "log_written f (xs @ ys) = log_written f xs @ log_written f ys"
  by (simp add: log_written_def)

text \<open>
  Claim C8 as worded, "each run has its own log file", fails: two downloads started
  one after the other from the same window write to the same file, and the second run
  finds the lines and the marker of the first one in it.
\<close>

theorem two_runs_share_the_log_file:
  "log_written (ascii ''logs/20261103_090507.log'')
     (click_download (fst (init example_env example_now)\<lparr>urls_text := ascii ''https://b''\<rparr>)
        example_env @
      click_download (fst (init example_env example_now)\<lparr>urls_text := ascii ''https://c''\<rparr>)
        example_env) =
   [LogLine (ascii ''logs/20261103_090507.log'')
      (ascii ''ERROR: URL https://b - Unsupported URL''),
    LogRaw (ascii ''logs/20261103_090507.log'')
      ([0xA] @ ascii ''=== '' @ [0x5B8C, 0x4E86] @ ascii '' ==='' @ [0xA]),
    LogLine (ascii ''logs/20261103_090507.log'')
      (ascii ''ERROR: URL https://c - Unsupported URL''),
    LogRaw (ascii ''logs/20261103_090507.log'')
      ([0xA] @ ascii ''=== '' @ [0x5B8C, 0x4E86] @ ascii '' ==='' @ [0xA])]"
  unfolding log_written_append example_click_b example_click_c by simp

end
